theory Spec2Isabelle
  imports Main "HOL-Library.Word" "HOL-Library.Sublist"
begin

section \<open>JavaScript strings\<close>

text \<open>
  A JavaScript string is a sequence of UTF-16 code units. \<open>utf16\<close> embeds the ASCII
  literals of the source (for ASCII a character is one code unit with the same number).
\<close>

type_synonym js_string = "16 word list"

definition utf16 :: "string \<Rightarrow> js_string" where
  "utf16 cs = map of_char cs"

text \<open>
  \<open>String.prototype.trim\<close> removes white space and line terminators from both ends:
  TAB, LF, VT, FF, CR, SP, NBSP, the Unicode space separators, LS, PS and the BOM.
\<close>

definition is_js_whitespace :: "16 word \<Rightarrow> bool" where
  "is_js_whitespace c \<longleftrightarrow>
     c = 0x09 \<or> c = 0x0A \<or> c = 0x0B \<or> c = 0x0C \<or> c = 0x0D \<or> c = 0x20 \<or> c = 0xA0 \<or>
     c = 0x1680 \<or> (0x2000 \<le> c \<and> c \<le> 0x200A) \<or> c = 0x2028 \<or> c = 0x2029 \<or>
     c = 0x202F \<or> c = 0x205F \<or> c = 0x3000 \<or> c = 0xFEFF"

definition trim :: "js_string \<Rightarrow> js_string" where
  "trim s = rev (dropWhile is_js_whitespace (rev (dropWhile is_js_whitespace s)))"

section \<open>The data model (types.ts)\<close>

datatype Occasion =
  Casual | Business | Wedding | Date_Night | Party | Formal_Event | Outdoor_Adventure

datatype Weather = Sunny | Rainy | Cold | Hot | Windy | Snowy

text \<open>The string each member of the two union types is.\<close>

fun Occasion_string :: "Occasion \<Rightarrow> js_string" where
  "Occasion_string Casual = utf16 ''Casual''"
| "Occasion_string Business = utf16 ''Business''"
| "Occasion_string Wedding = utf16 ''Wedding''"
| "Occasion_string Date_Night = utf16 ''Date Night''"
| "Occasion_string Party = utf16 ''Party''"
| "Occasion_string Formal_Event = utf16 ''Formal Event''"
| "Occasion_string Outdoor_Adventure = utf16 ''Outdoor Adventure''"

fun Weather_string :: "Weather \<Rightarrow> js_string" where
  "Weather_string Sunny = utf16 ''Sunny''"
| "Weather_string Rainy = utf16 ''Rainy''"
| "Weather_string Cold = utf16 ''Cold''"
| "Weather_string Hot = utf16 ''Hot''"
| "Weather_string Windy = utf16 ''Windy''"
| "Weather_string Snowy = utf16 ''Snowy''"

record Recommendation =
  outfit :: js_string
  footwear :: js_string
  accessories :: js_string
  stylingTips :: js_string

datatype Role = User | Model

record Message =
  role :: Role
  text' :: js_string

section \<open>JSON values, \<open>JSON.parse\<close> and \<open>JSON.stringify\<close>\<close>

subsection \<open>Numbers\<close>

text \<open>
  The numbers \<open>JSON.parse\<close> can return are the doubles but NaN. A finite double is kept
  as its sign, its significand \<open>m\<close> and its binary exponent \<open>e\<close>: it is \<open>m * 2^e\<close> with
  \<open>m < 2^53\<close> and \<open>- 1074 \<le> e \<le> 971\<close>, and \<open>2^52 \<le> m\<close> unless \<open>e = - 1074\<close>. Zero has
  significand 0, with either sign.
\<close>

definition is_digit :: "16 word \<Rightarrow> bool" where
  "is_digit c \<longleftrightarrow> 0x30 \<le> c \<and> c \<le> 0x39"

definition digits_value :: "js_string \<Rightarrow> int" where
  "digits_value k = foldl (\<lambda>a c. 10 * a + (uint c - 48)) 0 k"

datatype js_number = Finite bool int int | Infinite bool

text \<open>The number of digits of a positive integer in base \<open>b\<close>.\<close>

function digit_count :: "int \<Rightarrow> int \<Rightarrow> nat" where
  "digit_count b n = (if n \<le> 0 \<or> b \<le> 1 then 0 else Suc (digit_count b (n div b)))"
  by pat_completeness auto
termination
  by (relation "measure (\<lambda>(b, n). nat n)") (auto simp: int_div_less_self)

text \<open>
  The double nearest to the positive rational \<open>num / den\<close>, a tie going to the even
  significand: the exponent is chosen for a significand of 53 bits, or is the least one,
  the quotient is rounded, and what is beyond the largest double is an infinity.
\<close>

definition nearest_double :: "bool \<Rightarrow> int \<Rightarrow> int \<Rightarrow> js_number" where
  "nearest_double neg num den =
     (let bn = digit_count 2 num;
          bd = digit_count 2 den;
          l = (if den * 2 ^ bn \<le> num * 2 ^ bd then int bn - int bd else int bn - int bd - 1);
          e = max (l - 52) (- 1074);
          a = (if 0 \<le> e then num else num * 2 ^ nat (- e));
          b = (if 0 \<le> e then den * 2 ^ nat e else den);
          m0 = a div b;
          r = a mod b;
          m = (if b < 2 * r \<or> (2 * r = b \<and> odd m0) then m0 + 1 else m0);
          m' = (if 2 ^ 53 \<le> m then m div 2 else m);
          e' = (if 2 ^ 53 \<le> m then e + 1 else e)
      in if 971 < e' then Infinite neg else Finite neg m' e')"

text \<open>
  The double a decimal \<open>m * 10^e\<close> denotes. A decimal of more than 310 digits before the
  point is beyond every double, and one below \<open>10^(- 330)\<close> is nearest to zero.
\<close>

definition Number_of_decimal :: "bool \<Rightarrow> int \<Rightarrow> int \<Rightarrow> js_number" where
  "Number_of_decimal neg m e =
     (if m = 0 then Finite neg 0 (- 1074)
      else if 310 < e + int (digit_count 10 m) then Infinite neg
      else if e + int (digit_count 10 m) < - 330 then Finite neg 0 (- 1074)
      else if 0 \<le> e then nearest_double neg (m * 10 ^ nat e) 1
      else nearest_double neg m (10 ^ nat (- e)))"

text \<open>The double a number of the JSON grammar denotes.\<close>

definition Number_of_lexeme :: "js_string \<Rightarrow> js_number" where
  "Number_of_lexeme cs =
     (let neg = (case cs of [] \<Rightarrow> False | c # _ \<Rightarrow> c = 0x2D);
          r = (if neg then drop 1 cs else cs);
          ip = takeWhile is_digit r;
          r1 = dropWhile is_digit r;
          fp = (case r1 of [] \<Rightarrow> [] | p # r2 \<Rightarrow> if p = 0x2E then takeWhile is_digit r2 else []);
          r3 = (case r1 of [] \<Rightarrow> [] | p # r2 \<Rightarrow> if p = 0x2E then dropWhile is_digit r2 else r1);
          ex = (case r3 of
                  [] \<Rightarrow> 0
                | _ # r4 \<Rightarrow>
                    (case r4 of
                       [] \<Rightarrow> 0
                     | g # r5 \<Rightarrow>
                         if g = 0x2D then - digits_value r5
                         else if g = 0x2B then digits_value r5
                         else digits_value r4))
      in Number_of_decimal neg (digits_value (ip @ fp)) (ex - int (length fp)))"

text \<open>The decimal digits of a natural number.\<close>

function decimal :: "int \<Rightarrow> js_string" where
  "decimal n = (if n < 10 then [of_int (48 + n)] else decimal (n div 10) @ [of_int (48 + n mod 10)])"
  by pat_completeness auto
termination
  by (relation "measure nat") (auto simp: int_div_less_self)

text \<open>
  \<open>Number::toString\<close> finds the least number \<open>k\<close> of digits such that a decimal of \<open>k\<close>
  digits denotes the double, and the digits \<open>s\<close> of the decimal nearest to the double among
  these, the even one on a tie. For each \<open>k\<close> the decimals to try are the two of \<open>k\<close> digits
  next to the double, \<open>lo * 10^t\<close> below and \<open>(lo + 1) * 10^t\<close> above. Seventeen digits
  denote every double.
\<close>

definition candidate :: "int \<Rightarrow> int \<Rightarrow> nat \<Rightarrow> (int \<times> int) option" where
  "candidate m e k =
     (let a = (if 0 \<le> e then m * 2 ^ nat e else m);
          b = (if 0 \<le> e then 1 else 2 ^ nat (- e));
          da = digit_count 10 a;
          db = digit_count 10 b;
          n = (if b * 10 ^ da \<le> a * 10 ^ db then int da - int db + 1 else int da - int db);
          t = n - int k;
          a' = (if 0 \<le> t then a else a * 10 ^ nat (- t));
          b' = (if 0 \<le> t then b * 10 ^ nat t else b);
          lo = a' div b';
          r = a' mod b';
          lo_ok = (Number_of_decimal False lo t = Finite False m e);
          hi_ok = (Number_of_decimal False (lo + 1) t = Finite False m e)
      in if lo_ok \<and> hi_ok then
           (if 2 * r < b' \<or> (2 * r = b' \<and> even lo) then Some (lo, t) else Some (lo + 1, t))
         else if lo_ok then Some (lo, t)
         else if hi_ok then Some (lo + 1, t)
         else None)"

definition shortest :: "int \<Rightarrow> int \<Rightarrow> int \<times> int" where
  "shortest m e =
     (case List.map_filter (candidate m e) [1 ..< 18] of
        [] \<Rightarrow> (m, e)
      | st # _ \<Rightarrow> st)"

definition strip_zeros :: "js_string \<Rightarrow> js_string" where
  "strip_zeros ds = rev (dropWhile (\<lambda>c. c = 0x30) (rev ds))"

text \<open>
  The digits are laid out as an integer, with a decimal point, with leading zeros after
  \<open>0.\<close>, or in exponent notation, by the position \<open>n\<close> of the decimal point.
\<close>

definition Number_toString :: "js_number \<Rightarrow> js_string" where
  "Number_toString x =
     (case x of
        Infinite neg \<Rightarrow> (if neg then utf16 ''-Infinity'' else utf16 ''Infinity'')
      | Finite neg m e \<Rightarrow>
          if m = 0 then utf16 ''0''
          else
            (let (s, t) = shortest m e;
                 ds = strip_zeros (decimal s);
                 k = int (length ds);
                 n = t + int (length (decimal s));
                 body =
                   (if k \<le> n \<and> n \<le> 21 then ds @ replicate (nat (n - k)) 0x30
                    else if 0 < n \<and> n \<le> 21 then take (nat n) ds @ [0x2E] @ drop (nat n) ds
                    else if - 6 < n \<and> n \<le> 0 then utf16 ''0.'' @ replicate (nat (- n)) 0x30 @ ds
                    else
                      (if k = 1 then ds else take 1 ds @ [0x2E] @ drop 1 ds)
                      @ [0x65] @ (if 0 \<le> n - 1 then [0x2B] else [0x2D]) @ decimal (abs (n - 1)))
             in (if neg then [0x2D] else []) @ body))"

subsection \<open>Values\<close>

text \<open>
  What \<open>JSON.parse\<close> can return. An object keeps its properties in the order JavaScript
  enumerates them.
\<close>

datatype json =
  JNull
| JBool bool
| JNumber js_number
| JString js_string
| JArray "json list"
| JObject "(js_string \<times> json) list"

subsection \<open>Tokens\<close>

datatype token =
  LBrace | RBrace | LBracket | RBracket | Colon | Comma
| TString js_string | TNumber js_string | TTrue | TFalse | TNull

definition is_json_ws :: "16 word \<Rightarrow> bool" where
  "is_json_ws c \<longleftrightarrow> c = 0x20 \<or> c = 0x09 \<or> c = 0x0A \<or> c = 0x0D"

definition hex_value :: "16 word \<Rightarrow> nat option" where
  "hex_value c =
     (if 0x30 \<le> c \<and> c \<le> 0x39 then Some (unat c - 48)
      else if 0x41 \<le> c \<and> c \<le> 0x46 then Some (unat c - 55)
      else if 0x61 \<le> c \<and> c \<le> 0x66 then Some (unat c - 87)
      else None)"

text \<open>The code unit a one-letter escape stands for (quote, backslash, slash, b, f, n, r, t).\<close>

definition unescape :: "16 word \<Rightarrow> 16 word option" where
  "unescape e =
     (if e = 0x22 then Some 0x22
      else if e = 0x5C then Some 0x5C
      else if e = 0x2F then Some 0x2F
      else if e = 0x62 then Some 0x08
      else if e = 0x66 then Some 0x0C
      else if e = 0x6E then Some 0x0A
      else if e = 0x72 then Some 0x0D
      else if e = 0x74 then Some 0x09
      else None)"

text \<open>The code unit written as four hexadecimal digits after \<open>\u\<close>.\<close>

definition hex4 :: "16 word \<Rightarrow> 16 word \<Rightarrow> 16 word \<Rightarrow> 16 word \<Rightarrow> 16 word option" where
  "hex4 h3 h2 h1 h0 =
     (case (hex_value h3, hex_value h2, hex_value h1, hex_value h0) of
        (Some a, Some b, Some c, Some d) \<Rightarrow> Some (of_nat (((a * 16 + b) * 16 + c) * 16 + d))
      | _ \<Rightarrow> None)"

text \<open>
  The body of a string literal, read after its opening quote: the string it denotes and the
  number of code units read, closing quote included. A raw control character, an unknown
  escape and a missing closing quote are errors.
\<close>

fun json_chars :: "js_string \<Rightarrow> (js_string \<times> nat) option" where
  "json_chars [] = None"
| "json_chars (c # cs) =
     (if c = 0x22 then Some ([], 1)
      else if c = 0x5C then
        (case cs of
           [] \<Rightarrow> None
         | e # es \<Rightarrow>
             if e = 0x75 then
               (case es of
                  h3 # h2 # h1 # h0 # rest \<Rightarrow>
                    (case hex4 h3 h2 h1 h0 of
                       None \<Rightarrow> None
                     | Some u \<Rightarrow> map_option (\<lambda>(s, n). (u # s, n + 6)) (json_chars rest))
                | _ \<Rightarrow> None)
             else
               (case unescape e of
                  None \<Rightarrow> None
                | Some x \<Rightarrow> map_option (\<lambda>(s, n). (x # s, n + 2)) (json_chars es)))
      else if c < 0x20 then None
      else map_option (\<lambda>(s, n). (c # s, n + 1)) (json_chars cs))"

text \<open>
  The length of the number at the front of the input, if there is one:
  an optional minus, \<open>0\<close> or a digit string not starting with \<open>0\<close>, an optional fraction
  (a dot and at least one digit), an optional exponent (e or E, an optional sign, at least
  one digit).
\<close>

definition json_number :: "js_string \<Rightarrow> nat option" where
  "json_number cs =
     (let s = (case cs of [] \<Rightarrow> 0 | c # _ \<Rightarrow> if c = 0x2D then 1 else (0::nat));
          r = drop s cs;
          ds = takeWhile is_digit r;
          i = (case ds of [] \<Rightarrow> 0 | d # _ \<Rightarrow> if d = 0x30 then 1 else length ds)
      in if i = 0 then None
         else
           let r1 = drop i r;
               f = (case r1 of
                      [] \<Rightarrow> 0
                    | p # r2 \<Rightarrow>
                        if p = 0x2E \<and> takeWhile is_digit r2 \<noteq> []
                        then 1 + length (takeWhile is_digit r2) else 0);
               r3 = drop f r1;
               e = (case r3 of
                      [] \<Rightarrow> 0
                    | x # r4 \<Rightarrow>
                        if x = 0x65 \<or> x = 0x45 then
                          (let g = (case r4 of
                                      [] \<Rightarrow> 0
                                    | y # _ \<Rightarrow> if y = 0x2B \<or> y = 0x2D then 1 else (0::nat));
                               es = takeWhile is_digit (drop g r4)
                           in if es = [] then 0 else 1 + g + length es)
                        else 0)
           in Some (s + i + f + e))"

text \<open>The token at the front of the input and the number of code units it takes.\<close>

definition token_at :: "js_string \<Rightarrow> (token \<times> nat) option" where
  "token_at cs =
     (case cs of
        [] \<Rightarrow> None
      | c # r \<Rightarrow>
          if c = 0x7B then Some (LBrace, 1)
          else if c = 0x7D then Some (RBrace, 1)
          else if c = 0x5B then Some (LBracket, 1)
          else if c = 0x5D then Some (RBracket, 1)
          else if c = 0x3A then Some (Colon, 1)
          else if c = 0x2C then Some (Comma, 1)
          else if c = 0x22 then map_option (\<lambda>(s, n). (TString s, Suc n)) (json_chars r)
          else if take 4 cs = utf16 ''true'' then Some (TTrue, 4)
          else if take 5 cs = utf16 ''false'' then Some (TFalse, 5)
          else if take 4 cs = utf16 ''null'' then Some (TNull, 4)
          else (case json_number cs of
                  None \<Rightarrow> None
                | Some n \<Rightarrow> Some (TNumber (take n cs), n)))"

fun tokens :: "js_string \<Rightarrow> token list option" where
  "tokens [] = Some []"
| "tokens (c # cs) =
     (if is_json_ws c then tokens cs
      else
        (case token_at (c # cs) of
           None \<Rightarrow> None
         | Some (t, n) \<Rightarrow> map_option ((#) t) (tokens (drop (n - 1) cs))))"

subsection \<open>Objects\<close>

text \<open>
  JavaScript enumerates the properties of an object with the array indices first
  (canonical decimal strings below \<open>2^32 - 1\<close>), ascending, and then the other keys in the
  order they were created. Defining a property that exists replaces its value in place.
\<close>

definition array_index :: "js_string \<Rightarrow> int option" where
  "array_index k =
     (if k \<noteq> [] \<and> list_all is_digit k \<and> (length k = 1 \<or> hd k \<noteq> 0x30) \<and> length k \<le> 10
         \<and> digits_value k < 4294967295
      then Some (digits_value k) else None)"

definition index_below :: "int \<Rightarrow> js_string \<times> json \<Rightarrow> bool" where
  "index_below i p = (case array_index (fst p) of None \<Rightarrow> False | Some j \<Rightarrow> j < i)"

definition obj_put :: "(js_string \<times> json) list \<Rightarrow> js_string \<Rightarrow> json \<Rightarrow> (js_string \<times> json) list" where
  "obj_put ms k v =
     (if k \<in> fst ` set ms then map (\<lambda>(k', v'). if k' = k then (k', v) else (k', v')) ms
      else
        (case array_index k of
           None \<Rightarrow> ms @ [(k, v)]
         | Some i \<Rightarrow> takeWhile (index_below i) ms @ [(k, v)] @ dropWhile (index_below i) ms))"

subsection \<open>The parser\<close>

text \<open>
  The grammar of JSON is read by a pushdown automaton over the tokens. A frame is an open
  array with the elements read so far, or an open object with its members read so far and
  the key whose value is being read.
\<close>

datatype frame =
  FArray "json list"
| FObject "(js_string \<times> json) list" js_string

datatype mode =
  NeedValue
| NeedValueOrClose
| NeedKeyOrClose
| NeedKey "(js_string \<times> json) list"
| NeedColon "(js_string \<times> json) list" js_string
| AfterElement "json list"
| AfterMember "(js_string \<times> json) list"
| Finished json

text \<open>A value is complete: it is the whole text, or it goes into the innermost open frame.\<close>

fun deliver :: "json \<Rightarrow> frame list \<Rightarrow> mode \<times> frame list" where
  "deliver v [] = (Finished v, [])"
| "deliver v (FArray vs # fs) = (AfterElement (vs @ [v]), fs)"
| "deliver v (FObject ms k # fs) = (AfterMember (obj_put ms k v), fs)"

fun begin_value :: "token \<Rightarrow> frame list \<Rightarrow> (mode \<times> frame list) option" where
  "begin_value LBrace fs = Some (NeedKeyOrClose, fs)"
| "begin_value LBracket fs = Some (NeedValueOrClose, fs)"
| "begin_value (TString s) fs = Some (deliver (JString s) fs)"
| "begin_value (TNumber n) fs = Some (deliver (JNumber (Number_of_lexeme n)) fs)"
| "begin_value TTrue fs = Some (deliver (JBool True) fs)"
| "begin_value TFalse fs = Some (deliver (JBool False) fs)"
| "begin_value TNull fs = Some (deliver JNull fs)"
| "begin_value _ fs = None"

fun advance :: "mode \<Rightarrow> frame list \<Rightarrow> token \<Rightarrow> (mode \<times> frame list) option" where
  "advance NeedValue fs t = begin_value t fs"
| "advance NeedValueOrClose fs t =
     (if t = RBracket then Some (deliver (JArray []) fs) else begin_value t (FArray [] # fs))"
| "advance NeedKeyOrClose fs t =
     (case t of
        RBrace \<Rightarrow> Some (deliver (JObject []) fs)
      | TString k \<Rightarrow> Some (NeedColon [] k, fs)
      | _ \<Rightarrow> None)"
| "advance (NeedKey ms) fs t = (case t of TString k \<Rightarrow> Some (NeedColon ms k, fs) | _ \<Rightarrow> None)"
| "advance (NeedColon ms k) fs t = (if t = Colon then Some (NeedValue, FObject ms k # fs) else None)"
| "advance (AfterElement vs) fs t =
     (case t of
        Comma \<Rightarrow> Some (NeedValue, FArray vs # fs)
      | RBracket \<Rightarrow> Some (deliver (JArray vs) fs)
      | _ \<Rightarrow> None)"
| "advance (AfterMember ms) fs t =
     (case t of
        Comma \<Rightarrow> Some (NeedKey ms, fs)
      | RBrace \<Rightarrow> Some (deliver (JObject ms) fs)
      | _ \<Rightarrow> None)"
| "advance (Finished v) fs t = None"

fun parse_tokens :: "mode \<Rightarrow> frame list \<Rightarrow> token list \<Rightarrow> json option" where
  "parse_tokens m fs [] = (case m of Finished v \<Rightarrow> Some v | _ \<Rightarrow> None)"
| "parse_tokens m fs (t # ts) =
     (case advance m fs t of
        None \<Rightarrow> None
      | Some (m', fs') \<Rightarrow> parse_tokens m' fs' ts)"

text \<open>\<open>JSON.parse\<close> without a reviver: \<open>None\<close> is the SyntaxError it throws.\<close>

definition JSON_parse :: "js_string \<Rightarrow> json option" where
  "JSON_parse txt = (case tokens txt of None \<Rightarrow> None | Some ts \<Rightarrow> parse_tokens NeedValue [] ts)"

subsection \<open>\<open>JSON.stringify\<close>\<close>

definition hex_digit :: "nat \<Rightarrow> 16 word" where
  "hex_digit d = (if d < 10 then of_nat (48 + d) else of_nat (87 + d))"

definition unicode_escape :: "16 word \<Rightarrow> js_string" where
  "unicode_escape c =
     [0x5C, 0x75, hex_digit (unat c div 4096), hex_digit (unat c div 256 mod 16),
      hex_digit (unat c div 16 mod 16), hex_digit (unat c mod 16)]"

text \<open>
  The characters of a quoted string: quote, backslash and the control characters are
  escaped, a surrogate that is not half of a pair is written as \<open>\uXXXX\<close>.
\<close>

fun quote_chars :: "js_string \<Rightarrow> js_string" where
  "quote_chars [] = []"
| "quote_chars (c # cs) =
     (if c = 0x22 then [0x5C, 0x22] @ quote_chars cs
      else if c = 0x5C then [0x5C, 0x5C] @ quote_chars cs
      else if c = 0x08 then [0x5C, 0x62] @ quote_chars cs
      else if c = 0x0C then [0x5C, 0x66] @ quote_chars cs
      else if c = 0x0A then [0x5C, 0x6E] @ quote_chars cs
      else if c = 0x0D then [0x5C, 0x72] @ quote_chars cs
      else if c = 0x09 then [0x5C, 0x74] @ quote_chars cs
      else if c < 0x20 then unicode_escape c @ quote_chars cs
      else if 0xD800 \<le> c \<and> c \<le> 0xDBFF then
        (case cs of
           [] \<Rightarrow> unicode_escape c
         | d # ds \<Rightarrow>
             if 0xDC00 \<le> d \<and> d \<le> 0xDFFF then c # d # quote_chars ds
             else unicode_escape c @ quote_chars cs)
      else if 0xDC00 \<le> c \<and> c \<le> 0xDFFF then unicode_escape c @ quote_chars cs
      else c # quote_chars cs)"

definition quote :: "js_string \<Rightarrow> js_string" where
  "quote s = [0x22] @ quote_chars s @ [0x22]"

fun join :: "js_string \<Rightarrow> js_string list \<Rightarrow> js_string" where
  "join sep [] = []"
| "join sep [x] = x"
| "join sep (x # y # ys) = x @ sep @ join sep (y # ys)"

text \<open>
  \<open>JSON.stringify\<close> with one argument, on the values \<open>JSON.parse\<close> returns. A number
  that is not finite is printed as \<open>null\<close>.
\<close>

fun JSON_stringify :: "json \<Rightarrow> js_string" where
  "JSON_stringify JNull = utf16 ''null''"
| "JSON_stringify (JBool b) = (if b then utf16 ''true'' else utf16 ''false'')"
| "JSON_stringify (JNumber x) =
     (case x of Infinite neg \<Rightarrow> utf16 ''null'' | Finite neg m e \<Rightarrow> Number_toString x)"
| "JSON_stringify (JString s) = quote s"
| "JSON_stringify (JArray vs) = [0x5B] @ join [0x2C] (map JSON_stringify vs) @ [0x5D]"
| "JSON_stringify (JObject ms) =
     [0x7B] @ join [0x2C] (map (\<lambda>(k, v). quote k @ [0x3A] @ JSON_stringify v) ms) @ [0x7D]"

subsection \<open>Truthiness\<close>

text \<open>
  \<open>null\<close>, \<open>false\<close>, zero of either sign and the empty string are falsy, every object
  and array is truthy.
\<close>

fun truthy :: "json \<Rightarrow> bool" where
  "truthy JNull = False"
| "truthy (JBool b) = b"
| "truthy (JNumber x) = (case x of Infinite neg \<Rightarrow> True | Finite neg m e \<Rightarrow> m \<noteq> 0)"
| "truthy (JString s) = (s \<noteq> [])"
| "truthy (JArray vs) = True"
| "truthy (JObject ms) = True"

section \<open>The application (App.tsx)\<close>

subsection \<open>Catalogs and state\<close>

text \<open>The labels of the two catalogs the Selection Panel renders, in order (icons left out).\<close>

definition OCCASIONS :: "Occasion list" where
  "OCCASIONS = [Casual, Business, Wedding, Date_Night, Party, Outdoor_Adventure]"

definition WEATHERS :: "Weather list" where
  "WEATHERS = [Sunny, Rainy, Cold, Hot, Windy, Snowy]"

text \<open>
  The state hooks of \<open>App\<close>. \<open>recommendation\<close> holds whatever \<open>JSON.parse\<close> returned,
  \<open>JNull\<close> being JavaScript's \<open>null\<close>.
\<close>

record app_state =
  occasion :: "Occasion option"
  weather :: "Weather option"
  recommendation :: json
  loading :: bool
  chatOpen :: bool
  messages :: "Message list"
  inputValue :: js_string
  chatLoading :: bool

definition initial :: app_state where
  "initial =
     \<lparr>occasion = None, weather = None, recommendation = JNull, loading = False,
      chatOpen = False, messages = [], inputValue = [], chatLoading = False\<rparr>"

text \<open>
  What an awaited call of the external service comes to: the promise is rejected, or it is
  fulfilled with a response whose \<open>text\<close> is a string or \<open>undefined\<close>.
\<close>

datatype response = Rejected | Fulfilled "js_string option"

text \<open>A recommendation as the JSON object the response schema asks for.\<close>

definition Recommendation_json :: "Recommendation \<Rightarrow> json" where
  "Recommendation_json r =
     JObject [(utf16 ''outfit'', JString (outfit r)), (utf16 ''footwear'', JString (footwear r)),
              (utf16 ''accessories'', JString (accessories r)),
              (utf16 ''stylingTips'', JString (stylingTips r))]"

subsection \<open>\<open>generateRecommendation\<close>\<close>

record generateContent_request =
  model :: js_string
  contents :: js_string
  responseMimeType :: js_string
  schema_properties :: "js_string list"
  schema_required :: "js_string list"

definition generateRecommendation_request :: "Occasion \<Rightarrow> Weather \<Rightarrow> generateContent_request" where
  "generateRecommendation_request oc w =
     \<lparr>model = utf16 ''gemini-3.1-pro-preview'',
      contents =
        utf16 ''As a professional fashion stylist, generate a detailed outfit recommendation for a ''
        @ Occasion_string oc @ utf16 '' occasion in '' @ Weather_string w
        @ utf16 '' weather. Return the response in JSON format.'',
      responseMimeType = utf16 ''application/json'',
      schema_properties =
        [utf16 ''outfit'', utf16 ''footwear'', utf16 ''accessories'', utf16 ''stylingTips''],
      schema_required =
        [utf16 ''outfit'', utf16 ''footwear'', utf16 ''accessories'', utf16 ''stylingTips'']\<rparr>"

text \<open>The seed message of the transcript.\<close>

definition greeting :: "Occasion \<Rightarrow> Weather \<Rightarrow> Message" where
  "greeting oc w =
     \<lparr>role = Model,
      text' =
        utf16 ''Hello! I've generated a '' @ Occasion_string oc @ utf16 '' look for ''
        @ Weather_string w
        @ utf16 '' weather. Do you have any specific questions about this outfit or need more styling advice?''\<rparr>"

text \<open>
  The function up to its \<open>await\<close>: the guard, \<open>setLoading(true)\<close> and the call. The result is
  the new state and, when a call was issued, the \<open>occasion\<close> and \<open>weather\<close> the function
  closed over; the request sent is \<open>generateRecommendation_request\<close> of the two.
\<close>

definition generateRecommendation_start :: "app_state \<Rightarrow> app_state \<times> (Occasion \<times> Weather) option" where
  "generateRecommendation_start s =
     (case (occasion s, weather s) of
        (Some oc, Some w) \<Rightarrow> (s\<lparr>loading := True\<rparr>, Some (oc, w))
      | _ \<Rightarrow> (s, None))"

text \<open>\<open>ToString\<close> of \<open>response.text\<close>, which \<open>JSON.parse\<close> applies to its argument.\<close>

definition response_text :: "js_string option \<Rightarrow> js_string" where
  "response_text t = (case t of None \<Rightarrow> utf16 ''undefined'' | Some x \<Rightarrow> x)"

text \<open>
  The function from its \<open>await\<close> on, in the state the call settles in: \<open>try\<close>, \<open>catch\<close> and
  \<open>finally\<close>. The second component is what \<open>console.error\<close> was given as label.
\<close>

definition generateRecommendation_resume ::
  "Occasion \<Rightarrow> Weather \<Rightarrow> response \<Rightarrow> app_state \<Rightarrow> app_state \<times> js_string list" where
  "generateRecommendation_resume oc w resp s =
     (case resp of
        Rejected \<Rightarrow> (s\<lparr>loading := False\<rparr>, [utf16 ''Error generating recommendation:''])
      | Fulfilled t \<Rightarrow>
          (case JSON_parse (response_text t) of
             None \<Rightarrow> (s\<lparr>loading := False\<rparr>, [utf16 ''Error generating recommendation:''])
           | Some result \<Rightarrow>
               (s\<lparr>recommendation := result, messages := [greeting oc w], loading := False\<rparr>, [])))"

text \<open>The whole function when nothing else happens while the call is outstanding.\<close>

definition generateRecommendation :: "response \<Rightarrow> app_state \<Rightarrow> app_state \<times> js_string list" where
  "generateRecommendation resp s =
     (case generateRecommendation_start s of
        (s', None) \<Rightarrow> (s', [])
      | (s', Some (oc, w)) \<Rightarrow> generateRecommendation_resume oc w resp s')"

subsection \<open>\<open>handleSendMessage\<close>\<close>

text \<open>
  What \<open>ai.chats.create\<close> and \<open>chat.sendMessage\<close> are given. \<open>history\<close> is the optional
  parameter of \<open>ai.chats.create\<close> for the earlier turns of the session.
\<close>

record chat_request =
  chat_model :: js_string
  systemInstruction :: js_string
  history :: "Message list"
  message :: js_string

text \<open>A template literal prints \<open>null\<close> as the text null.\<close>

definition template_occasion :: "Occasion option \<Rightarrow> js_string" where
  "template_occasion x = (case x of None \<Rightarrow> utf16 ''null'' | Some oc \<Rightarrow> Occasion_string oc)"

definition template_weather :: "Weather option \<Rightarrow> js_string" where
  "template_weather x = (case x of None \<Rightarrow> utf16 ''null'' | Some w \<Rightarrow> Weather_string w)"

definition handleSendMessage_request :: "app_state \<Rightarrow> chat_request" where
  "handleSendMessage_request s =
     \<lparr>chat_model = utf16 ''gemini-3.1-pro-preview'',
      systemInstruction =
        utf16 ''You are a professional fashion stylist. You just recommended an outfit for a ''
        @ template_occasion (occasion s) @ utf16 '' occasion in '' @ template_weather (weather s)
        @ utf16 '' weather. The recommendation was: '' @ JSON_stringify (recommendation s)
        @ utf16 ''. Answer the user's questions about fashion, styling, and this specific recommendation. Keep it trendy, practical, and encouraging.'',
      history = [],
      message = inputValue s\<rparr>"

text \<open>The function up to its \<open>await\<close>.\<close>

definition handleSendMessage_start :: "app_state \<Rightarrow> app_state \<times> chat_request option" where
  "handleSendMessage_start s =
     (if trim (inputValue s) = [] \<or> chatLoading s then (s, None)
      else
        (s\<lparr>messages := messages s @ [\<lparr>role = User, text' = inputValue s\<rparr>],
           inputValue := [], chatLoading := True\<rparr>,
         Some (handleSendMessage_request s)))"

definition no_reply :: Message where
  "no_reply = \<lparr>role = Model, text' = utf16 ''I'm sorry, I couldn't process that.''\<rparr>"

definition trouble :: Message where
  "trouble =
     \<lparr>role = Model, text' = utf16 ''I'm having trouble connecting right now. Please try again.''\<rparr>"

text \<open>The function from its \<open>await\<close> on, in the state the call settles in.\<close>

definition handleSendMessage_resume :: "response \<Rightarrow> app_state \<Rightarrow> app_state \<times> js_string list" where
  "handleSendMessage_resume resp s =
     (case resp of
        Rejected \<Rightarrow>
          (s\<lparr>messages := messages s @ [trouble], chatLoading := False\<rparr>, [utf16 ''Chat error:''])
      | Fulfilled t \<Rightarrow>
          (s\<lparr>messages :=
                messages s
                @ [case t of
                     None \<Rightarrow> no_reply
                   | Some x \<Rightarrow> if x = [] then no_reply else \<lparr>role = Model, text' = x\<rparr>],
             chatLoading := False\<rparr>,
           []))"

subsection \<open>The page: what the user and the service can do\<close>

text \<open>
  The state of the page with the calls that are outstanding. A recommendation call is
  kept as the pair its continuation closed over; the continuation of a chat call uses
  no variable of its closure.
\<close>

record page =
  ui :: app_state
  pending_recommendations :: "(Occasion \<times> Weather) list"
  pending_chats :: "chat_request list"

definition start_page :: page where
  "start_page = \<lparr>ui = initial, pending_recommendations = [], pending_chats = []\<rparr>"

datatype event =
  SelectOccasion Occasion
| SelectWeather Weather
| CurateMyLook
| RecommendationSettles nat response
| AskStylist
| CloseChat
| ChangeInput js_string
| SendMessage
| ChatSettles nat response

text \<open>
  The three views of the results panel; the button that opens the chat is part of the
  last one.
\<close>

datatype results_view = Empty_view | Loading_view | Result_view

definition results_panel :: "app_state \<Rightarrow> results_view" where
  "results_panel s =
     (if \<not> truthy (recommendation s) \<and> \<not> loading s then Empty_view
      else if loading s then Loading_view
      else Result_view)"

definition remove_nth :: "nat \<Rightarrow> 'a list \<Rightarrow> 'a list" where
  "remove_nth i xs = take i xs @ drop (Suc i) xs"

text \<open>
  One event on the page; \<open>None\<close> when the page does not offer it: a label that has no
  button, a disabled button, a control of the chat drawer while the drawer is closed, a
  call that is not outstanding. The Enter key of the input calls \<open>handleSendMessage\<close>
  whether the send button is disabled or not. Rendering is not part of the model: where
  React would stop rendering the page (it throws on a recommendation with a field that is
  an object), the model goes on offering events, so it has every session of the page.
\<close>

fun fire :: "page \<Rightarrow> event \<Rightarrow> page option" where
  "fire p (SelectOccasion oc) =
     (if oc \<in> set OCCASIONS then Some (p\<lparr>ui := (ui p)\<lparr>occasion := Some oc\<rparr>\<rparr>) else None)"
| "fire p (SelectWeather w) =
     (if w \<in> set WEATHERS then Some (p\<lparr>ui := (ui p)\<lparr>weather := Some w\<rparr>\<rparr>) else None)"
| "fire p CurateMyLook =
     (if occasion (ui p) = None \<or> weather (ui p) = None \<or> loading (ui p) then None
      else
        (case generateRecommendation_start (ui p) of
           (s', None) \<Rightarrow> Some (p\<lparr>ui := s'\<rparr>)
         | (s', Some c) \<Rightarrow>
             Some (p\<lparr>ui := s', pending_recommendations := pending_recommendations p @ [c]\<rparr>)))"
| "fire p (RecommendationSettles i resp) =
     (if i < length (pending_recommendations p) then
        (case pending_recommendations p ! i of
           (oc, w) \<Rightarrow>
             Some (p\<lparr>ui := fst (generateRecommendation_resume oc w resp (ui p)),
                     pending_recommendations := remove_nth i (pending_recommendations p)\<rparr>))
      else None)"
| "fire p AskStylist =
     (if results_panel (ui p) = Result_view then Some (p\<lparr>ui := (ui p)\<lparr>chatOpen := True\<rparr>\<rparr>)
      else None)"
| "fire p CloseChat =
     (if chatOpen (ui p) then Some (p\<lparr>ui := (ui p)\<lparr>chatOpen := False\<rparr>\<rparr>) else None)"
| "fire p (ChangeInput v) =
     (if chatOpen (ui p) then Some (p\<lparr>ui := (ui p)\<lparr>inputValue := v\<rparr>\<rparr>) else None)"
| "fire p SendMessage =
     (if chatOpen (ui p) then
        (case handleSendMessage_start (ui p) of
           (s', None) \<Rightarrow> Some (p\<lparr>ui := s'\<rparr>)
         | (s', Some r) \<Rightarrow> Some (p\<lparr>ui := s', pending_chats := pending_chats p @ [r]\<rparr>))
      else None)"
| "fire p (ChatSettles i resp) =
     (if i < length (pending_chats p) then
        Some (p\<lparr>ui := fst (handleSendMessage_resume resp (ui p)),
                pending_chats := remove_nth i (pending_chats p)\<rparr>)
      else None)"

fun run :: "page \<Rightarrow> event list \<Rightarrow> page option" where
  "run p [] = Some p"
| "run p (e # es) = (case fire p e of None \<Rightarrow> None | Some p' \<Rightarrow> run p' es)"

subsection \<open>Notions of the specification\<close>

text \<open>
  The shape the specification expects of a parsed response: an object with exactly the four
  fields \<open>outfit\<close>, \<open>footwear\<close>, \<open>accessories\<close> and \<open>stylingTips\<close>, each a string.
\<close>

definition is_string :: "json \<Rightarrow> bool" where
  "is_string v = (case v of JString _ \<Rightarrow> True | _ \<Rightarrow> False)"

definition matches_schema :: "json \<Rightarrow> bool" where
  "matches_schema v =
     (case v of
        JObject ms \<Rightarrow>
          length ms = 4
          \<and> set (map fst ms)
              = {utf16 ''outfit'', utf16 ''footwear'', utf16 ''accessories'', utf16 ''stylingTips''}
          \<and> list_all (\<lambda>p. is_string (snd p)) ms
      | _ \<Rightarrow> False)"

text \<open>
  Single flight: at most one recommendation call is outstanding, and \<open>loading\<close> is set
  exactly while one is.
\<close>

definition single_flight :: "page \<Rightarrow> bool" where
  "single_flight p \<longleftrightarrow>
     length (pending_recommendations p) \<le> 1
     \<and> (loading (ui p) \<longleftrightarrow> pending_recommendations p \<noteq> [])"

text \<open>The same for chat calls and \<open>chatLoading\<close>.\<close>

definition chat_single_flight :: "page \<Rightarrow> bool" where
  "chat_single_flight p \<longleftrightarrow>
     length (pending_chats p) \<le> 1 \<and> (chatLoading (ui p) \<longleftrightarrow> pending_chats p \<noteq> [])"

text \<open>
  A seeded transcript starts with the greeting of some occasion and weather. The page keeps
  the transcript seeded, and non-empty whenever a recommendation is shown, the chat drawer
  is open or a chat call is outstanding.
\<close>

definition seeded :: "Message list \<Rightarrow> bool" where
  "seeded ms \<longleftrightarrow> (\<exists>oc w. hd ms = greeting oc w)"

definition transcript_ok :: "page \<Rightarrow> bool" where
  "transcript_ok p \<longleftrightarrow>
     (messages (ui p) = [] \<or> seeded (messages (ui p)))
     \<and> ((truthy (recommendation (ui p)) \<or> chatOpen (ui p) \<or> pending_chats p \<noteq> [])
          \<longrightarrow> messages (ui p) \<noteq> [])"

subsection \<open>Example data\<close>

definition navy_suit :: Recommendation where
  "navy_suit =
     \<lparr>outfit = utf16 ''Navy suit'', footwear = utf16 ''Leather oxfords'',
      accessories = utf16 ''Umbrella'', stylingTips = utf16 ''Layer for rain''\<rparr>"

definition navy_suit_text :: js_string where
  "navy_suit_text =
     utf16 ''{\"outfit\":\"Navy suit\",\"footwear\":\"Leather oxfords\",\"accessories\":\"Umbrella\",\"stylingTips\":\"Layer for rain\"}''"

text \<open>The page after a recommendation for Business and Rainy, and after one chat turn.\<close>

definition styled :: app_state where
  "styled =
     \<lparr>occasion = Some Business, weather = Some Rainy,
      recommendation = Recommendation_json navy_suit, loading = False, chatOpen = True,
      messages = [greeting Business Rainy], inputValue = [], chatLoading = False\<rparr>"

definition chatted :: app_state where
  "chatted =
     styled\<lparr>messages :=
       [greeting Business Rainy, \<lparr>role = User, text' = utf16 ''What color tie?''\<rparr>,
        \<lparr>role = Model, text' = utf16 ''Burgundy.''\<rparr>]\<rparr>"

text \<open>The same question typed after one chat turn, and typed with the seed message alone.\<close>

definition asking :: app_state where
  "asking = chatted\<lparr>inputValue := utf16 ''What shoes?''\<rparr>"

definition asking_afresh :: app_state where
  "asking_afresh = styled\<lparr>inputValue := utf16 ''What shoes?''\<rparr>"

text \<open>
  A session in which the user types the next question while the first is being answered,
  and the page it ends in.
\<close>

definition waiting_trace :: "event list" where
  "waiting_trace =
     [SelectOccasion Business, SelectWeather Rainy, CurateMyLook,
      RecommendationSettles 0 (Fulfilled (Some navy_suit_text)), AskStylist,
      ChangeInput (utf16 ''What color tie?''), SendMessage,
      ChangeInput (utf16 ''And the shoes?'')]"

definition waiting_page :: page where
  "waiting_page =
     \<lparr>ui = styled\<lparr>messages := [greeting Business Rainy,
                                 \<lparr>role = User, text' = utf16 ''What color tie?''\<rparr>],
                   inputValue := utf16 ''And the shoes?'', chatLoading := True\<rparr>,
      pending_recommendations = [],
      pending_chats = [handleSendMessage_request (styled\<lparr>inputValue := utf16 ''What color tie?''\<rparr>)]\<rparr>"

text \<open>
  A session in which the user picks another occasion after the recommendation has arrived,
  and the page it ends in.
\<close>

definition stale_trace :: "event list" where
  "stale_trace =
     [SelectOccasion Casual, SelectWeather Sunny, CurateMyLook,
      RecommendationSettles 0 (Fulfilled (Some navy_suit_text)), SelectOccasion Business]"

definition stale_page :: page where
  "stale_page =
     \<lparr>ui = \<lparr>occasion = Some Business, weather = Some Sunny,
             recommendation = Recommendation_json navy_suit, loading = False, chatOpen = False,
             messages = [greeting Casual Sunny], inputValue = [], chatLoading = False\<rparr>,
      pending_recommendations = [], pending_chats = []\<rparr>"

text \<open>
  A session in which the user picks another occasion and another weather while the
  recommendation call is outstanding, and the page it ends in.
\<close>

definition overtaken_trace :: "event list" where
  "overtaken_trace =
     [SelectOccasion Casual, SelectWeather Sunny, CurateMyLook,
      SelectOccasion Business, SelectWeather Cold,
      RecommendationSettles 0 (Fulfilled (Some navy_suit_text))]"

definition overtaken_page :: page where
  "overtaken_page =
     \<lparr>ui = \<lparr>occasion = Some Business, weather = Some Cold,
             recommendation = Recommendation_json navy_suit, loading = False, chatOpen = False,
             messages = [greeting Casual Sunny], inputValue = [], chatLoading = False\<rparr>,
      pending_recommendations = [], pending_chats = []\<rparr>"

text \<open>
  A state a chat call can settle in: the transcript has been reseeded by a new
  recommendation and the user has typed again.
\<close>

definition interrupted :: app_state where
  "interrupted = styled\<lparr>occasion := Some Party, inputValue := utf16 ''And a hat?'', chatLoading := True\<rparr>"

section \<open>Properties\<close>

subsection \<open>Auxiliary facts\<close>

lemma run_invariant:
  assumes "P p" and "\<And>q e q'. P q \<Longrightarrow> fire q e = Some q' \<Longrightarrow> P q'" and "run p es = Some p'"
  shows "P p'"
  using assms(1,3)
proof (induction es arbitrary: p)
  case Nil
  then show ?case by simp
next
  case (Cons e es)
  then obtain q where q: "fire p e = Some q" "run q es = Some p'"
    by (auto split: option.splits)
  from Cons.prems(1) q(1) have "P q" by (rule assms(2))
  then show ?case using q(2) by (rule Cons.IH)
qed

lemma loading_generateRecommendation_resume [simp]:
  "loading (fst (generateRecommendation_resume oc w resp s)) = False"
  by (simp add: generateRecommendation_resume_def split: response.splits option.splits)

lemma loading_handleSendMessage_start [simp]:
  "loading (fst (handleSendMessage_start s)) = loading s"
  by (simp add: handleSendMessage_start_def)

lemma loading_handleSendMessage_resume [simp]:
  "loading (fst (handleSendMessage_resume resp s)) = loading s"
  by (simp add: handleSendMessage_resume_def split: response.splits)

lemma single_flight_fire:
  assumes "single_flight p" and "fire p e = Some p'"
  shows "single_flight p'"
proof (cases e)
  case CurateMyLook
  with assms show ?thesis
    by (auto simp: single_flight_def generateRecommendation_start_def
             split: if_splits option.splits)
next
  case (RecommendationSettles i resp)
  with assms(2) have i: "i < length (pending_recommendations p)"
    by (simp split: if_splits)
  with assms(1) have "i = 0" "length (pending_recommendations p) = 1"
    by (auto simp: single_flight_def)
  then have "remove_nth i (pending_recommendations p) = []"
    by (cases "pending_recommendations p") (simp_all add: remove_nth_def)
  with assms(2) RecommendationSettles i show ?thesis
    by (auto simp: single_flight_def split: prod.splits)
next
  case SendMessage
  with assms show ?thesis
    by (cases "handleSendMessage_start (ui p)")
       (auto simp: single_flight_def split: if_splits option.splits
             dest: arg_cong[where f="\<lambda>x. loading (fst x)"])
qed (use assms in \<open>auto simp: single_flight_def split: if_splits\<close>)

lemma Occasion_UNIV:
  "(UNIV :: Occasion set)
     = {Casual, Business, Wedding, Date_Night, Party, Formal_Event, Outdoor_Adventure}"
  by (auto intro: Occasion.exhaust)

lemma JSON_parse_navy_suit_text: "JSON_parse navy_suit_text = Some (Recommendation_json navy_suit)"
  by code_simp

lemma matches_schema_navy_suit: "matches_schema (Recommendation_json navy_suit)"
  by code_simp

lemma run_stale_trace: "run start_page stale_trace = Some stale_page"
  by (simp add: stale_trace_def stale_page_def start_page_def initial_def OCCASIONS_def
      WEATHERS_def generateRecommendation_start_def generateRecommendation_resume_def
      response_text_def JSON_parse_navy_suit_text remove_nth_def)

lemma seeded_append: "ms \<noteq> [] \<Longrightarrow> seeded ms \<Longrightarrow> seeded (ms @ xs)"
  by (cases ms) (simp_all add: seeded_def)

lemma seeded_greeting: "seeded [greeting oc w]"
  unfolding seeded_def by (intro exI) simp

lemma generateRecommendation_resume_transcript:
  "chatOpen (fst (generateRecommendation_resume oc w resp s)) = chatOpen s
   \<and> (messages (fst (generateRecommendation_resume oc w resp s)) = messages s
        \<and> recommendation (fst (generateRecommendation_resume oc w resp s)) = recommendation s
       \<or> messages (fst (generateRecommendation_resume oc w resp s)) = [greeting oc w])"
  by (simp add: generateRecommendation_resume_def split: response.splits option.splits)

lemma handleSendMessage_start_transcript:
  "chatOpen (fst (handleSendMessage_start s)) = chatOpen s
   \<and> recommendation (fst (handleSendMessage_start s)) = recommendation s
   \<and> (handleSendMessage_start s = (s, None)
       \<or> (\<exists>m. messages (fst (handleSendMessage_start s)) = messages s @ [m]))"
  by (simp add: handleSendMessage_start_def)

lemma handleSendMessage_resume_transcript:
  "chatOpen (fst (handleSendMessage_resume resp s)) = chatOpen s
   \<and> recommendation (fst (handleSendMessage_resume resp s)) = recommendation s
   \<and> (\<exists>m. messages (fst (handleSendMessage_resume resp s)) = messages s @ [m])"
  by (cases resp) (simp_all add: handleSendMessage_resume_def)

lemma transcript_ok_fire:
  assumes ok: "transcript_ok p" and f: "fire p e = Some p'"
  shows "transcript_ok p'"
proof (cases e)
  case (SelectOccasion oc)
  with f have "p' = p\<lparr>ui := (ui p)\<lparr>occasion := Some oc\<rparr>\<rparr>"
    by (simp split: if_splits)
  with ok show ?thesis by (simp add: transcript_ok_def)
next
  case (SelectWeather w)
  with f have "p' = p\<lparr>ui := (ui p)\<lparr>weather := Some w\<rparr>\<rparr>"
    by (simp split: if_splits)
  with ok show ?thesis by (simp add: transcript_ok_def)
next
  case CurateMyLook
  with f obtain c where "p' = p\<lparr>ui := (ui p)\<lparr>loading := True\<rparr>,
      pending_recommendations := pending_recommendations p @ [c]\<rparr>"
    by (auto simp: generateRecommendation_start_def split: if_splits)
  with ok show ?thesis by (simp add: transcript_ok_def)
next
  case (RecommendationSettles i resp)
  with f obtain oc w where p': "p' = p\<lparr>ui := fst (generateRecommendation_resume oc w resp (ui p)),
      pending_recommendations := remove_nth i (pending_recommendations p)\<rparr>"
    by (auto split: if_splits prod.splits)
  from generateRecommendation_resume_transcript [of oc w resp "ui p"]
  have co: "chatOpen (ui p') = chatOpen (ui p)"
    and "messages (ui p') = messages (ui p) \<and> recommendation (ui p') = recommendation (ui p)
         \<or> messages (ui p') = [greeting oc w]"
    by (simp_all add: p')
  then show ?thesis
  proof (elim disjE conjE)
    assume "messages (ui p') = messages (ui p)" "recommendation (ui p') = recommendation (ui p)"
    with ok co p' show ?thesis by (simp add: transcript_ok_def)
  next
    assume "messages (ui p') = [greeting oc w]"
    then show ?thesis by (simp add: transcript_ok_def seeded_greeting)
  qed
next
  case AskStylist
  with f have "p' = p\<lparr>ui := (ui p)\<lparr>chatOpen := True\<rparr>\<rparr>" and "truthy (recommendation (ui p))"
    by (auto simp: results_panel_def split: if_splits)
  with ok show ?thesis by (auto simp: transcript_ok_def)
next
  case CloseChat
  with f have "p' = p\<lparr>ui := (ui p)\<lparr>chatOpen := False\<rparr>\<rparr>"
    by (simp split: if_splits)
  with ok show ?thesis by (auto simp: transcript_ok_def)
next
  case (ChangeInput v)
  with f have "p' = p\<lparr>ui := (ui p)\<lparr>inputValue := v\<rparr>\<rparr>"
    by (simp split: if_splits)
  with ok show ?thesis by (simp add: transcript_ok_def)
next
  case SendMessage
  with f have op: "chatOpen (ui p)"
    by (simp split: if_splits)
  with ok have ne: "messages (ui p) \<noteq> []" and sd: "seeded (messages (ui p))"
    by (auto simp: transcript_ok_def)
  from f SendMessage op have u: "ui p' = fst (handleSendMessage_start (ui p))"
    by (auto split: prod.splits option.splits)
  from handleSendMessage_start_transcript [of "ui p"]
  have "messages (ui p') = messages (ui p) \<or> (\<exists>m. messages (ui p') = messages (ui p) @ [m])"
    unfolding u by auto
  with ne sd have "messages (ui p') \<noteq> [] \<and> seeded (messages (ui p'))"
    by (auto simp: seeded_append)
  then show ?thesis by (simp add: transcript_ok_def)
next
  case (ChatSettles i resp)
  with f have "pending_chats p \<noteq> []"
    by (auto split: if_splits)
  with ok have ne: "messages (ui p) \<noteq> []" and sd: "seeded (messages (ui p))"
    by (auto simp: transcript_ok_def)
  from f ChatSettles have u: "ui p' = fst (handleSendMessage_resume resp (ui p))"
    by (auto split: if_splits)
  from handleSendMessage_resume_transcript [of resp "ui p"]
  have "\<exists>m. messages (ui p') = messages (ui p) @ [m]"
    unfolding u by simp
  with ne sd have "messages (ui p') \<noteq> [] \<and> seeded (messages (ui p'))"
    by (auto simp: seeded_append)
  then show ?thesis by (simp add: transcript_ok_def)
qed


lemma chatLoading_generateRecommendation_resume [simp]:
  "chatLoading (fst (generateRecommendation_resume oc w resp s)) = chatLoading s"
  by (simp add: generateRecommendation_resume_def split: response.splits option.splits)

lemma chatLoading_handleSendMessage_resume [simp]:
  "chatLoading (fst (handleSendMessage_resume resp s)) = False"
  by (simp add: handleSendMessage_resume_def split: response.splits)

lemma chat_single_flight_fire:
  assumes "chat_single_flight p" and "fire p e = Some p'"
  shows "chat_single_flight p'"
proof (cases e)
  case CurateMyLook
  with assms show ?thesis
    by (auto simp: chat_single_flight_def generateRecommendation_start_def
             split: if_splits option.splits)
next
  case (RecommendationSettles i resp)
  with assms show ?thesis
    by (auto simp: chat_single_flight_def split: if_splits prod.splits)
next
  case SendMessage
  with assms show ?thesis
    by (auto simp: chat_single_flight_def handleSendMessage_start_def split: if_splits)
next
  case (ChatSettles i resp)
  with assms(2) have i: "i < length (pending_chats p)"
    by (simp split: if_splits)
  with assms(1) have "i = 0" "length (pending_chats p) = 1"
    by (auto simp: chat_single_flight_def)
  then have "remove_nth i (pending_chats p) = []"
    by (cases "pending_chats p") (simp_all add: remove_nth_def)
  with assms(2) ChatSettles i show ?thesis
    by (auto simp: chat_single_flight_def)
qed (use assms in \<open>auto simp: chat_single_flight_def split: if_splits\<close>)

lemma chat_flag_brackets_call:
  assumes "run start_page es = Some p"
  shows "chat_single_flight p"
proof -
  have "chat_single_flight start_page"
    by (simp add: chat_single_flight_def start_page_def initial_def)
  then show ?thesis
    using chat_single_flight_fire assms by (rule run_invariant)
qed

lemma trim_tie: "trim (utf16 ''What color tie?'') \<noteq> []"
  by code_simp

lemma truthy_navy_suit: "truthy (Recommendation_json navy_suit)"
  by (simp add: Recommendation_json_def)

lemma run_waiting_trace: "run start_page waiting_trace = Some waiting_page"
  by (simp add: waiting_trace_def waiting_page_def start_page_def initial_def OCCASIONS_def
      WEATHERS_def generateRecommendation_start_def generateRecommendation_resume_def
      response_text_def JSON_parse_navy_suit_text remove_nth_def results_panel_def
      truthy_navy_suit handleSendMessage_start_def trim_tie styled_def)

lemma run_overtaken_trace: "run start_page overtaken_trace = Some overtaken_page"
  by (simp add: overtaken_trace_def overtaken_page_def start_page_def initial_def OCCASIONS_def
      WEATHERS_def generateRecommendation_start_def generateRecommendation_resume_def
      response_text_def JSON_parse_navy_suit_text remove_nth_def)

subsection \<open>The catalog of occasions\<close>

text \<open>
  C3. The type \<open>Occasion\<close> has seven members, but the catalog the Selection Panel renders
  has six: there is no button for Formal Event, so the page never offers to select it.
\<close>

theorem Formal_Event_not_offered:
  "card (UNIV :: Occasion set) = 7 \<and> length OCCASIONS = 6 \<and> Formal_Event \<notin> set OCCASIONS
   \<and> fire p (SelectOccasion Formal_Event) = None"
  by (simp add: Occasion_UNIV OCCASIONS_def)

subsection \<open>Requests that are not made\<close>

text \<open>
  C5. With the occasion or the weather unset, \<open>generateRecommendation\<close> returns at its
  guard: no call is issued, nothing is logged and the state (recommendation, transcript
  and loading flag included) is the one it was called in.
\<close>

theorem generateRecommendation_unset_noop:
  assumes "occasion s = None \<or> weather s = None"
  shows "generateRecommendation_start s = (s, None) \<and> generateRecommendation resp s = (s, [])"
  using assms
  by (auto simp: generateRecommendation_start_def generateRecommendation_def split: option.splits)

theorem generateRecommendation_unset_noop_witness:
  "(occasion (chatted\<lparr>weather := None\<rparr>) = None \<or> weather (chatted\<lparr>weather := None\<rparr>) = None)
   \<and> generateRecommendation_start (chatted\<lparr>weather := None\<rparr>) = (chatted\<lparr>weather := None\<rparr>, None)
   \<and> generateRecommendation (Fulfilled (Some navy_suit_text)) (chatted\<lparr>weather := None\<rparr>)
       = (chatted\<lparr>weather := None\<rparr>, [])"
proof -
  have h: "occasion (chatted\<lparr>weather := None\<rparr>) = None \<or> weather (chatted\<lparr>weather := None\<rparr>) = None"
    by simp
  show ?thesis
    using h generateRecommendation_unset_noop [OF h, of "Fulfilled (Some navy_suit_text)"] by simp
qed

text \<open>
  C6. With an input that is empty after trimming, or with \<open>chatLoading\<close> set,
  \<open>handleSendMessage\<close> returns at its guard: no call is issued and the state, the
  transcript included, is the one it was called in. On the page \<open>chatLoading\<close> is set
  whenever a chat call is outstanding, so sending then, or sending blank input, leaves
  the page as it is, outstanding calls included.
\<close>

theorem handleSendMessage_guard_noop:
  shows "(trim (inputValue s) = [] \<or> chatLoading s \<longrightarrow> handleSendMessage_start s = (s, None))
    \<and> (run start_page es = Some p \<and> chatOpen (ui p)
          \<and> (trim (inputValue (ui p)) = [] \<or> pending_chats p \<noteq> [])
        \<longrightarrow> fire p SendMessage = Some p)"
proof (intro conjI impI)
  assume "trim (inputValue s) = [] \<or> chatLoading s"
  then show "handleSendMessage_start s = (s, None)"
    by (auto simp: handleSendMessage_start_def)
next
  assume a: "run start_page es = Some p \<and> chatOpen (ui p)
          \<and> (trim (inputValue (ui p)) = [] \<or> pending_chats p \<noteq> [])"
  then have "chat_single_flight p"
    by (blast intro: chat_flag_brackets_call)
  with a have "trim (inputValue (ui p)) = [] \<or> chatLoading (ui p)"
    by (auto simp: chat_single_flight_def)
  then have "handleSendMessage_start (ui p) = (ui p, None)"
    by (auto simp: handleSendMessage_start_def)
  with a show "fire p SendMessage = Some p"
    by simp
qed

theorem handleSendMessage_guard_noop_witness:
  "(trim (inputValue (chatted\<lparr>inputValue := utf16 ''  ''\<rparr>)) = []
      \<or> chatLoading (chatted\<lparr>inputValue := utf16 ''  ''\<rparr>))
   \<and> handleSendMessage_start (chatted\<lparr>inputValue := utf16 ''  ''\<rparr>)
       = (chatted\<lparr>inputValue := utf16 ''  ''\<rparr>, None)
   \<and> run start_page waiting_trace = Some waiting_page \<and> chatOpen (ui waiting_page)
   \<and> (trim (inputValue (ui waiting_page)) = [] \<or> pending_chats waiting_page \<noteq> [])
   \<and> fire waiting_page SendMessage = Some waiting_page"
proof -
  have h: "trim (inputValue (chatted\<lparr>inputValue := utf16 ''  ''\<rparr>)) = []
           \<or> chatLoading (chatted\<lparr>inputValue := utf16 ''  ''\<rparr>)"
    by (simp add: trim_def utf16_def is_js_whitespace_def)
  have o: "chatOpen (ui waiting_page)" and c: "pending_chats waiting_page \<noteq> []"
    by (simp_all add: waiting_page_def styled_def)
  show ?thesis
    using h o c run_waiting_trace
      handleSendMessage_guard_noop [of "chatted\<lparr>inputValue := utf16 ''  ''\<rparr>" waiting_trace waiting_page]
    by simp
qed

subsection \<open>The loading flag\<close>

text \<open>
  C9. In every state the page can reach, at most one recommendation call is outstanding
  and \<open>loading\<close> is set exactly while one is: it is set when the call is issued and
  cleared when the call settles. While it is set the button is disabled, so no second call
  starts.
\<close>

theorem loading_brackets_call:
  assumes "run start_page es = Some p"
  shows "length (pending_recommendations p) \<le> 1
         \<and> (loading (ui p) \<longleftrightarrow> pending_recommendations p \<noteq> [])
         \<and> (loading (ui p) \<longrightarrow> fire p CurateMyLook = None)"
proof -
  have "single_flight start_page"
    by (simp add: single_flight_def start_page_def initial_def)
  then have "single_flight p"
    using single_flight_fire assms by (rule run_invariant)
  then show ?thesis by (simp add: single_flight_def)
qed

theorem loading_brackets_call_witness:
  "run start_page [SelectOccasion Business, SelectWeather Rainy, CurateMyLook]
     = Some \<lparr>ui = initial\<lparr>occasion := Some Business, weather := Some Rainy, loading := True\<rparr>,
             pending_recommendations = [(Business, Rainy)], pending_chats = []\<rparr>
   \<and> length [(Business, Rainy)] \<le> (1::nat)
   \<and> fire \<lparr>ui = initial\<lparr>occasion := Some Business, weather := Some Rainy, loading := True\<rparr>,
           pending_recommendations = [(Business, Rainy)], pending_chats = []\<rparr> CurateMyLook = None"
proof -
  have h: "run start_page [SelectOccasion Business, SelectWeather Rainy, CurateMyLook]
     = Some \<lparr>ui = initial\<lparr>occasion := Some Business, weather := Some Rainy, loading := True\<rparr>,
             pending_recommendations = [(Business, Rainy)], pending_chats = []\<rparr>"
    by (simp add: start_page_def initial_def OCCASIONS_def WEATHERS_def generateRecommendation_start_def)
  show ?thesis
    using h loading_brackets_call [OF h] by simp
qed

subsection \<open>A recommendation arrives\<close>

text \<open>
  C1, as the specification states it, fails: the greeting is written from the occasion and
  the weather the function closed over when the request was made, and the selection
  buttons stay enabled while the call is outstanding. Casual and Sunny are requested,
  Business and Cold are selected before the response arrives, the response parses and has
  the four-field shape: the transcript is reset to one message that contains neither the
  label of the occasion now selected nor the label of the weather now selected.
\<close>

theorem greeting_of_overtaken_request:
  "run start_page overtaken_trace = Some overtaken_page
   \<and> JSON_parse navy_suit_text = Some (Recommendation_json navy_suit)
   \<and> matches_schema (Recommendation_json navy_suit)
   \<and> recommendation (ui overtaken_page) = Recommendation_json navy_suit
   \<and> occasion (ui overtaken_page) = Some Business
   \<and> weather (ui overtaken_page) = Some Cold
   \<and> length (messages (ui overtaken_page)) = 1
   \<and> \<not> sublist (Occasion_string Business) (text' (hd (messages (ui overtaken_page))))
   \<and> \<not> sublist (Weather_string Cold) (text' (hd (messages (ui overtaken_page))))"
proof -
  have "\<not> sublist (Occasion_string Business) (text' (greeting Casual Sunny))"
    and "\<not> sublist (Weather_string Cold) (text' (greeting Casual Sunny))"
    by code_simp+
  then show ?thesis
    using run_overtaken_trace JSON_parse_navy_suit_text matches_schema_navy_suit
    by (simp add: overtaken_page_def)
qed



subsection \<open>A response that cannot be used\<close>





subsection \<open>The first entry of the transcript\<close>

text \<open>
  C4, as the specification states it, fails: the greeting is written when a recommendation
  arrives and is not rewritten when a selection changes. After a recommendation for Casual
  and Sunny the user selects Business; the transcript is not empty, and its first entry
  does not contain the label of the occasion now selected.
\<close>

theorem greeting_not_current:
  "run start_page stale_trace = Some stale_page
   \<and> messages (ui stale_page) \<noteq> []
   \<and> occasion (ui stale_page) = Some Business
   \<and> \<not> sublist (Occasion_string Business) (text' (hd (messages (ui stale_page))))"
proof -
  have "\<not> sublist (Occasion_string Business) (text' (greeting Casual Sunny))"
    by code_simp
  then show ?thesis
    using run_stale_trace by (simp add: stale_page_def)
qed

text \<open>
  C4, amended. In every state the page can reach with a non-empty transcript, the first
  entry is the greeting of some occasion and weather: its role is \<open>model\<close> and its text
  contains the labels of that pair. Selecting an occasion or a weather leaves the
  transcript as it is.
\<close>

theorem transcript_starts_with_some_greeting:
  assumes "run start_page es = Some p" and "messages (ui p) \<noteq> []"
  shows "(\<exists>oc w. hd (messages (ui p)) = greeting oc w
            \<and> role (hd (messages (ui p))) = Model
            \<and> sublist (Occasion_string oc) (text' (hd (messages (ui p))))
            \<and> sublist (Weather_string w) (text' (hd (messages (ui p)))))
         \<and> (\<forall>p' oc. fire p (SelectOccasion oc) = Some p' \<longrightarrow> messages (ui p') = messages (ui p))
         \<and> (\<forall>p' w. fire p (SelectWeather w) = Some p' \<longrightarrow> messages (ui p') = messages (ui p))"
proof -
  have "transcript_ok start_page"
    by (simp add: transcript_ok_def start_page_def initial_def)
  then have "transcript_ok p"
    using transcript_ok_fire assms(1) by (rule run_invariant)
  with assms(2) obtain oc w where g: "hd (messages (ui p)) = greeting oc w"
    by (auto simp: transcript_ok_def seeded_def)
  have occ: "sublist (Occasion_string oc) (text' (greeting oc w))"
    by (simp add: greeting_def)
  have "sublist (Weather_string w)
          ((utf16 ''Hello! I've generated a '' @ Occasion_string oc @ utf16 '' look for '')
           @ Weather_string w
           @ utf16 '' weather. Do you have any specific questions about this outfit or need more styling advice?'')"
    by (rule sublist_appendI)
  then have wea: "sublist (Weather_string w) (text' (greeting oc w))"
    by (simp add: greeting_def)
  have "role (greeting oc w) = Model"
    by (simp add: greeting_def)
  with g occ wea show ?thesis
    by (auto split: if_splits)
qed

theorem transcript_starts_with_some_greeting_witness:
  "run start_page stale_trace = Some stale_page
   \<and> messages (ui stale_page) \<noteq> []
   \<and> hd (messages (ui stale_page)) = greeting Casual Sunny
   \<and> (\<exists>oc w. hd (messages (ui stale_page)) = greeting oc w)"
proof -
  have h: "messages (ui stale_page) \<noteq> []"
    by (simp add: stale_page_def)
  show ?thesis
    using h run_stale_trace transcript_starts_with_some_greeting [OF run_stale_trace h]
    by (auto simp: stale_page_def)
qed

subsection \<open>A chat turn\<close>



text \<open>
  C8. An accepted chat turn appends the user's message and raises \<open>chatLoading\<close>. In
  whatever state its call settles, one message of role \<open>model\<close> is appended to the
  transcript of that state and nothing else changes but \<open>chatLoading\<close>, which is cleared:
  the returned text if it is not empty, the fixed fallback text if it is empty or absent,
  the fixed apology (and a line on \<open>console.error\<close>) if the call was rejected. When the
  call settles in the state the turn left, the transcript is the one before the turn
  followed by the user's message and the reply.
\<close>

theorem chat_turn_reply:
  assumes "handleSendMessage_start s = (s1, Some r)"
  shows "s1 = s\<lparr>messages := messages s @ [\<lparr>role = User, text' = inputValue s\<rparr>],
                 inputValue := [], chatLoading := True\<rparr>
    \<and> (x \<noteq> [] \<longrightarrow>
         handleSendMessage_resume (Fulfilled (Some x)) s'
           = (s'\<lparr>messages := messages s' @ [\<lparr>role = Model, text' = x\<rparr>], chatLoading := False\<rparr>,
              []))
    \<and> handleSendMessage_resume (Fulfilled (Some [])) s'
         = (s'\<lparr>messages :=
                  messages s'
                  @ [\<lparr>role = Model, text' = utf16 ''I'm sorry, I couldn't process that.''\<rparr>],
               chatLoading := False\<rparr>, [])
    \<and> handleSendMessage_resume (Fulfilled None) s'
         = (s'\<lparr>messages :=
                  messages s'
                  @ [\<lparr>role = Model, text' = utf16 ''I'm sorry, I couldn't process that.''\<rparr>],
               chatLoading := False\<rparr>, [])
    \<and> handleSendMessage_resume Rejected s'
         = (s'\<lparr>messages :=
                  messages s'
                  @ [\<lparr>role = Model,
                      text' = utf16 ''I'm having trouble connecting right now. Please try again.''\<rparr>],
               chatLoading := False\<rparr>, [utf16 ''Chat error:''])
    \<and> \<not> chatLoading (fst (handleSendMessage_resume resp s'))
    \<and> (x \<noteq> [] \<longrightarrow>
         messages (fst (handleSendMessage_resume (Fulfilled (Some x)) s1))
           = messages s @ [\<lparr>role = User, text' = inputValue s\<rparr>, \<lparr>role = Model, text' = x\<rparr>])
    \<and> messages (fst (handleSendMessage_resume (Fulfilled (Some [])) s1))
         = messages s @ [\<lparr>role = User, text' = inputValue s\<rparr>,
                         \<lparr>role = Model, text' = utf16 ''I'm sorry, I couldn't process that.''\<rparr>]
    \<and> messages (fst (handleSendMessage_resume (Fulfilled None) s1))
         = messages s @ [\<lparr>role = User, text' = inputValue s\<rparr>,
                         \<lparr>role = Model, text' = utf16 ''I'm sorry, I couldn't process that.''\<rparr>]
    \<and> messages (fst (handleSendMessage_resume Rejected s1))
         = messages s @ [\<lparr>role = User, text' = inputValue s\<rparr>,
                         \<lparr>role = Model,
                          text' = utf16 ''I'm having trouble connecting right now. Please try again.''\<rparr>]"
proof -
  from assms have s1: "s1 = s\<lparr>messages := messages s @ [\<lparr>role = User, text' = inputValue s\<rparr>],
                inputValue := [], chatLoading := True\<rparr>"
    by (auto simp: handleSendMessage_start_def split: if_splits)
  have "\<not> chatLoading (fst (handleSendMessage_resume resp s'))"
    by (cases resp) (simp_all add: handleSendMessage_resume_def)
  then show ?thesis
    by (simp add: s1 handleSendMessage_resume_def no_reply_def trouble_def)
qed

theorem chat_turn_reply_witness:
  "handleSendMessage_start asking
     = (chatted\<lparr>messages := messages chatted @ [\<lparr>role = User, text' = utf16 ''What shoes?''\<rparr>],
                chatLoading := True\<rparr>, Some (handleSendMessage_request asking))
   \<and> utf16 ''Oxfords.'' \<noteq> []
   \<and> handleSendMessage_resume (Fulfilled (Some (utf16 ''Oxfords.''))) interrupted
       = (interrupted\<lparr>messages := [greeting Business Rainy, \<lparr>role = Model, text' = utf16 ''Oxfords.''\<rparr>],
                      chatLoading := False\<rparr>, [])
   \<and> messages (fst (handleSendMessage_resume (Fulfilled (Some (utf16 ''Oxfords.'')))
        (chatted\<lparr>messages := messages chatted @ [\<lparr>role = User, text' = utf16 ''What shoes?''\<rparr>],
                 chatLoading := True\<rparr>)))
       = messages chatted @ [\<lparr>role = User, text' = utf16 ''What shoes?''\<rparr>,
                             \<lparr>role = Model, text' = utf16 ''Oxfords.''\<rparr>]"
proof -
  have t: "trim (inputValue asking) \<noteq> []"
    by code_simp
  have h: "handleSendMessage_start asking
     = (chatted\<lparr>messages := messages chatted @ [\<lparr>role = User, text' = utf16 ''What shoes?''\<rparr>],
                chatLoading := True\<rparr>, Some (handleSendMessage_request asking))"
    using t by (simp add: handleSendMessage_start_def) (simp add: asking_def chatted_def styled_def)
  have n: "utf16 ''Oxfords.'' \<noteq> []"
    by (simp add: utf16_def)
  have m: "messages interrupted = [greeting Business Rainy]"
    by (simp add: interrupted_def styled_def)
  note r = chat_turn_reply [OF h, of "utf16 ''Oxfords.''" interrupted "Fulfilled (Some (utf16 ''Oxfords.''))"]
  from r n have a: "handleSendMessage_resume (Fulfilled (Some (utf16 ''Oxfords.''))) interrupted
       = (interrupted\<lparr>messages := messages interrupted @ [\<lparr>role = Model, text' = utf16 ''Oxfords.''\<rparr>],
                      chatLoading := False\<rparr>, [])"
    by blast
  from r n have b: "messages (fst (handleSendMessage_resume (Fulfilled (Some (utf16 ''Oxfords.'')))
        (chatted\<lparr>messages := messages chatted @ [\<lparr>role = User, text' = utf16 ''What shoes?''\<rparr>],
                 chatLoading := True\<rparr>)))
       = messages asking @ [\<lparr>role = User, text' = inputValue asking\<rparr>,
                             \<lparr>role = Model, text' = utf16 ''Oxfords.''\<rparr>]"
    by blast
  show ?thesis
    using h n a b by (simp add: m) (simp add: asking_def)
qed

text \<open>
  C10. The request of an accepted chat turn is made for a new session without history, and
  it is determined by the occasion, the weather, the recommendation and the submitted
  text: two states that agree on these four send the same request, whatever their
  transcripts hold.
\<close>

theorem chat_request_ignores_transcript:
  assumes "handleSendMessage_start s = (s1, Some r)"
    and "handleSendMessage_start t = (t1, Some r')"
    and "occasion s = occasion t" and "weather s = weather t"
    and "recommendation s = recommendation t" and "inputValue s = inputValue t"
  shows "r = r' \<and> history r = [] \<and> message r = inputValue s"
proof -
  from assms(1) have r: "r = handleSendMessage_request s"
    by (auto simp: handleSendMessage_start_def split: if_splits)
  from assms(2) have r': "r' = handleSendMessage_request t"
    by (auto simp: handleSendMessage_start_def split: if_splits)
  from assms(3-6) show ?thesis
    by (simp add: r r' handleSendMessage_request_def)
qed

theorem chat_request_ignores_transcript_witness:
  "messages asking \<noteq> messages asking_afresh
   \<and> snd (handleSendMessage_start asking) = Some (handleSendMessage_request asking)
   \<and> snd (handleSendMessage_start asking_afresh) = Some (handleSendMessage_request asking_afresh)
   \<and> handleSendMessage_request asking = handleSendMessage_request asking_afresh
   \<and> history (handleSendMessage_request asking) = []"
proof -
  have t: "trim (inputValue asking) \<noteq> []" "trim (inputValue asking_afresh) \<noteq> []"
    by code_simp+
  have c: "\<not> chatLoading asking" "\<not> chatLoading asking_afresh"
    by (simp_all add: asking_def asking_afresh_def chatted_def styled_def)
  have h1: "handleSendMessage_start asking = (fst (handleSendMessage_start asking), Some (handleSendMessage_request asking))"
    using t c by (simp add: handleSendMessage_start_def)
  have h2: "handleSendMessage_start asking_afresh = (fst (handleSendMessage_start asking_afresh), Some (handleSendMessage_request asking_afresh))"
    using t c by (simp add: handleSendMessage_start_def)
  have e: "occasion asking = occasion asking_afresh" "weather asking = weather asking_afresh"
    "recommendation asking = recommendation asking_afresh"
    "inputValue asking = inputValue asking_afresh"
    by (simp_all add: asking_def asking_afresh_def chatted_def styled_def)
  have d: "messages asking \<noteq> messages asking_afresh"
    by (simp add: asking_def asking_afresh_def chatted_def styled_def)
  show ?thesis
    using d chat_request_ignores_transcript [OF h1 h2 e] h1 h2
    by (metis snd_conv)
qed

end
